theory Spec2Isabelle
  imports Complex_Main "HOL-Library.Multiset"
begin

section \<open>Python values and built-ins used by the simulator\<close>

text \<open>
  The accumulated value of a replication is a Python number: it is the integer \<open>0\<close> when
  it is set by \<^verbatim>\<open>self.sum = 0\<close> and a float as soon as a variate has been added. The
  float type \<open>'f\<close> and its addition are parameters (see \<open>library\<close> below), so that no
  property below rests on an algebraic law that IEEE arithmetic does not have.
\<close>

datatype 'f pynum = PyInt int | PyFloat 'f

text \<open>What a call evaluates to: \<^verbatim>\<open>None\<close> for a method without \<^verbatim>\<open>return\<close>, or a number.\<close>

datatype 'f pyval = PyNone | PyNum "'f pynum"

text \<open>\<^verbatim>\<open>range(n)\<close> for an integer \<open>n\<close>: the integers \<open>0, ..., n - 1\<close>, empty when \<open>n \<le> 0\<close>.\<close>

definition range_py :: "int \<Rightarrow> int list" where
  "range_py n = map int [0..<nat n]"

text \<open>\<^verbatim>\<open>str(i)\<close> for an integer: its decimal digits, with a leading minus sign when negative.\<close>

definition digit_char :: "nat \<Rightarrow> char" where
  "digit_char d = char_of (48 + d)"

fun str_nat :: "nat \<Rightarrow> string" where
  "str_nat n = (if n < 10 then [digit_char n] else str_nat (n div 10) @ [digit_char (n mod 10)])"

declare str_nat.simps [simp del]

definition str_int :: "int \<Rightarrow> string" where
  "str_int i = (if i < 0 then CHR ''-'' # str_nat (nat (- i)) else str_nat (nat i))"

section \<open>The library the simulator is written against\<close>

text \<open>
  \<^verbatim>\<open>SimPy.RandomVariantGenerators\<close> is not among the sources. Its generator is taken as a
  parameter: \<open>RNG seed\<close> is the state of a generator constructed from \<open>seed\<close>,
  \<open>random_sample\<close> and \<open>beta_sample a b\<close> return a variate and the advanced state of the
  generator they are given. \<open>float_add\<close> is the addition of two floats and
  \<open>float_of_int\<close> the conversion Python applies when an integer meets a float;
  \<open>float_mean\<close> is the mean that the summary statistic reports.
\<close>

record ('g, 'f) library =
  RNG :: "int \<Rightarrow> 'g"
  random_sample :: "'g \<Rightarrow> 'f \<times> 'g"
  beta_sample :: "int \<Rightarrow> int \<Rightarrow> 'g \<Rightarrow> 'f \<times> 'g"
  float_add :: "'f \<Rightarrow> 'f \<Rightarrow> 'f"
  float_of_int :: "int \<Rightarrow> 'f"
  float_mean :: "'f pynum list \<Rightarrow> 'f"

text \<open>Python's \<^verbatim>\<open>+\<close> on two numbers.\<close>

fun py_add :: "('g, 'f) library \<Rightarrow> 'f pynum \<Rightarrow> 'f pynum \<Rightarrow> 'f pynum" where
  "py_add L (PyInt i) (PyInt j) = PyInt (i + j)"
| "py_add L (PyInt i) (PyFloat y) = PyFloat (float_add L (float_of_int L i) y)"
| "py_add L (PyFloat x) (PyInt j) = PyFloat (float_add L x (float_of_int L j))"
| "py_add L (PyFloat x) (PyFloat y) = PyFloat (float_add L x y)"

text \<open>\<^verbatim>\<open>RVGs.Beta(a=1, b=2)\<close>: the distribution object holds its two parameters and no generator.\<close>

datatype beta_dist = Beta int int

fun sample :: "('g, 'f) library \<Rightarrow> beta_dist \<Rightarrow> 'g \<Rightarrow> 'f \<times> 'g" where
  "sample L (Beta a b) g = beta_sample L a b g"

text \<open>
  The file system that \<^verbatim>\<open>IO.write_csv\<close> writes to: the rows of the file at a directory
  and a file name. A row is the list of its cells; \<open>'c\<close> is what a cell holds. The
  replications of \<^verbatim>\<open>SimModel\<close> write numbers.
\<close>

type_synonym 'c csv_files = "string \<times> string \<Rightarrow> 'c list list option"

type_synonym 'f filesystem = "'f pynum csv_files"

text \<open>
  Modelled from the spec: \<^verbatim>\<open>InOutFunctions.write_csv\<close> is not among the sources. The spec
  describes the sink as persisting a batch of rows to a named, directory-scoped tabular
  file; the file holds exactly the rows of the last write.
\<close>

definition write_csv :: "'c list list \<Rightarrow> string \<Rightarrow> string \<Rightarrow> 'c csv_files \<Rightarrow> 'c csv_files" where
  "write_csv rows file_name directory fs = fs((directory, file_name) \<mapsto> rows)"

section \<open>SimModel/SimClasses.py\<close>

subsection \<open>OneSim\<close>

record ('g, 'f) onesim =
  rng :: 'g
  beta :: beta_dist
  sum_attr :: "'f pynum"
  seed :: int

definition OneSim :: "('g, 'f) library \<Rightarrow> int \<Rightarrow> ('g, 'f) onesim" where
  "OneSim L s = \<lparr>rng = RNG L s, beta = Beta 1 2, sum_attr = PyInt 0, seed = s\<rparr>"

text \<open>
  One pass of the loop body
  \<^verbatim>\<open>self.sum += self.rng.random_sample() + self.beta.sample(rng=self.rng)\<close>:
  the uniform variate is drawn first, the beta variate second, from the same generator.
\<close>

definition simulate_step :: "('g, 'f) library \<Rightarrow> ('g, 'f) onesim \<Rightarrow> ('g, 'f) onesim" where
  "simulate_step L self =
     (let (u, g1) = random_sample L (rng self);
          (b, g2) = sample L (beta self) g1
      in self\<lparr>rng := g2, sum_attr := py_add L (sum_attr self) (PyFloat (float_add L u b))\<rparr>)"

text \<open>
  \<^verbatim>\<open>simulate\<close> has no \<^verbatim>\<open>return\<close> statement: the call evaluates to \<^verbatim>\<open>None\<close> and the
  accumulated value is left in the attribute \<^verbatim>\<open>sum\<close>.
\<close>

definition simulate :: "('g, 'f) library \<Rightarrow> ('g, 'f) onesim \<Rightarrow> int \<Rightarrow> 'f pyval \<times> ('g, 'f) onesim" where
  "simulate L self n_steps =
     (PyNone, fold (\<lambda>i s. simulate_step L s) (range_py n_steps) (self\<lparr>sum_attr := PyInt 0\<rparr>))"

text \<open>
  \<^verbatim>\<open>export_results\<close> writes the single row \<^verbatim>\<open>[self.seed, self.sum]\<close> to the file
  \<^verbatim>\<open>'Seed ' + str(self.seed) + ".csv"\<close> of the directory it is given.
\<close>

definition export_results :: "('g, 'f) onesim \<Rightarrow> string \<Rightarrow> 'f filesystem \<Rightarrow> 'f filesystem" where
  "export_results self directory fs =
     (let rows = [[PyInt (seed self), sum_attr self]];
          name = ''Seed '' @ str_int (seed self) @ ''.csv''
      in write_csv rows name directory fs)"

subsection \<open>ParallelMultiSim\<close>

record ('g, 'f) parallelmultisim =
  models :: "('g, 'f) onesim list"

definition ParallelMultiSim :: "('g, 'f) library \<Rightarrow> int \<Rightarrow> ('g, 'f) parallelmultisim" where
  "ParallelMultiSim L num_simulations =
     \<lparr>models = fold (\<lambda>seed ms. ms @ [OneSim L seed]) (range_py num_simulations) []\<rparr>"

text \<open>
  The worker function: it simulates the model it is given, exports it to the directory
  \<^verbatim>\<open>'ResultsParallel'\<close> and returns it.
\<close>

definition simulate_this_model ::
  "('g, 'f) library \<Rightarrow> ('g, 'f) onesim \<times> int \<Rightarrow> 'f filesystem \<Rightarrow> ('g, 'f) onesim \<times> 'f filesystem" where
  "simulate_this_model L arg fs =
     (let (model, n_steps) = arg;
          (r, model1) = simulate L model n_steps;
          fs1 = export_results model1 ''ResultsParallel'' fs
      in (model1, fs1))"

text \<open>
  \<^verbatim>\<open>multiprocessing.Pool.starmap\<close>. Every task runs in a worker process on a pickled copy
  of its argument, so the only state the tasks share is the file system. The order in
  which the workers take the tasks and finish them is not fixed: it is the parameter
  \<open>sched\<close>, the list of task indices in the order in which their effects happen (a
  permutation of \<open>[0..<length args]\<close>; an index out of range names no task). Whatever the
  order, the result of task \<open>i\<close> is delivered at position \<open>i\<close> of the returned list. The
  number of worker processes (\<^verbatim>\<open>mp.cpu_count()\<close>) decides which schedules can occur and
  nothing else, so it does not appear.
\<close>

fun pool_run ::
  "('a \<Rightarrow> 'w \<Rightarrow> 'r \<times> 'w) \<Rightarrow> 'a list \<Rightarrow> nat list \<Rightarrow> (nat \<Rightarrow> 'r option) \<times> 'w \<Rightarrow>
   (nat \<Rightarrow> 'r option) \<times> 'w" where
  "pool_run f args [] st = st"
| "pool_run f args (i # sched) (res, w) =
     (if i < length args
      then (let (r, w1) = f (args ! i) w in pool_run f args sched (res(i \<mapsto> r), w1))
      else pool_run f args sched (res, w))"

definition starmap ::
  "('a \<Rightarrow> 'w \<Rightarrow> 'r \<times> 'w) \<Rightarrow> 'a list \<Rightarrow> nat list \<Rightarrow> 'w \<Rightarrow> 'r option list \<times> 'w" where
  "starmap f args sched w =
     (let (res, w1) = pool_run f args sched (Map.empty, w)
      in (map res [0..<length args], w1))"

text \<open>
  \<^verbatim>\<open>ParallelMultiSim.simulate\<close> builds the argument list in the order of \<^verbatim>\<open>self.models\<close>
  and calls \<^verbatim>\<open>pl.starmap(simulate_this_model, args)\<close>. The list that \<^verbatim>\<open>starmap\<close> returns is
  not bound to a name, and the workers have mutated their own copies of the models: the
  object keeps the models it was constructed with, and what remains of the run is what
  the workers wrote to the file system.
\<close>

definition ParallelMultiSim_simulate ::
  "('g, 'f) library \<Rightarrow> nat list \<Rightarrow> ('g, 'f) parallelmultisim \<Rightarrow> int \<Rightarrow> 'f filesystem \<Rightarrow>
   ('g, 'f) parallelmultisim \<times> 'f filesystem" where
  "ParallelMultiSim_simulate L sched self n_steps fs =
     (let args = map (\<lambda>model. (model, n_steps)) (models self);
          (results, fs1) = starmap (simulate_this_model L) args sched fs
      in (self, fs1))"

section \<open>PyUsingSimPy/SimClasses2.py\<close>

text \<open>
  The file indents two lines with a tab where the lines around them use eight spaces; it
  is read with a tab standing for eight columns, which puts both lines in the body of
  their method. This \<^verbatim>\<open>OneSim\<close> keeps the list \<^verbatim>\<open>obs\<close> of the sums it has reached, and
  its \<^verbatim>\<open>simulate\<close> does not reset \<^verbatim>\<open>sum\<close>.
\<close>

record ('g, 'f) onesim2 =
  rng2 :: 'g
  beta2 :: beta_dist
  sum_attr2 :: "'f pynum"
  obs2 :: "'f pynum list"
  num2 :: int

definition OneSim2 :: "('g, 'f) library \<Rightarrow> int \<Rightarrow> ('g, 'f) onesim2" where
  "OneSim2 L s = \<lparr>rng2 = RNG L s, beta2 = Beta 1 2, sum_attr2 = PyInt 0, obs2 = [], num2 = s\<rparr>"

definition simulate_step2 :: "('g, 'f) library \<Rightarrow> ('g, 'f) onesim2 \<Rightarrow> ('g, 'f) onesim2" where
  "simulate_step2 L self =
     (let (u, g1) = random_sample L (rng2 self);
          (b, g2) = sample L (beta2 self) g1
      in self\<lparr>rng2 := g2, sum_attr2 := py_add L (sum_attr2 self) (PyFloat (float_add L u b))\<rparr>)"

definition simulate2 :: "('g, 'f) library \<Rightarrow> ('g, 'f) onesim2 \<Rightarrow> int \<Rightarrow> 'f pyval \<times> ('g, 'f) onesim2" where
  "simulate2 L self n_steps =
     (let self1 = fold (\<lambda>i s. simulate_step2 L s) (range_py n_steps) self
      in (PyNone, self1\<lparr>obs2 := obs2 self1 @ [sum_attr2 self1]\<rparr>))"

text \<open>
  \<^verbatim>\<open>export_results\<close> of this class takes no directory. It appends one row per entry of
  \<^verbatim>\<open>self.obs\<close>, each row being \<^verbatim>\<open>[self.obs]\<close> (one cell holding the whole list), and
  writes the rows to the file \<^verbatim>\<open>str(self.num) + ".csv"\<close> of the directory \<^verbatim>\<open>'Results'\<close>.
\<close>

definition export_results2 ::
  "('g, 'f) onesim2 \<Rightarrow> 'f pynum list csv_files \<Rightarrow> 'f pynum list csv_files" where
  "export_results2 self fs =
     (let rows = fold (\<lambda>obs rows0. rows0 @ [[obs2 self]]) (obs2 self) [];
          name = str_int (num2 self) @ ''.csv''
      in write_csv rows name ''Results'' fs)"

datatype error = EmptyInputError

record 'f summarystat =
  stat_name :: string
  stat_mean :: 'f
  stat_count :: nat

text \<open>
  Modelled from the spec: \<^verbatim>\<open>StatisticalClasses.SummaryStat\<close> is not among the sources. The
  spec describes the reducer as \<open>summarize(outcomes) -> {mean, count}\<close>, defined for one
  outcome or more, with \<open>EmptyInputError\<close> on an empty sequence.
\<close>

definition SummaryStat :: "('g, 'f) library \<Rightarrow> string \<Rightarrow> 'f pynum list \<Rightarrow> error + 'f summarystat" where
  "SummaryStat L name data =
     (if data = [] then Inl EmptyInputError
      else Inr \<lparr>stat_name = name, stat_mean = float_mean L data, stat_count = length data\<rparr>)"

definition get_mean :: "'f summarystat \<Rightarrow> 'f" where
  "get_mean stat = stat_mean stat"

record 'f multisim =
  obs :: "'f pynum list"

definition MultiSim :: "'f multisim" where
  "MultiSim = \<lparr>obs = []\<rparr>"

text \<open>The loop of \<^verbatim>\<open>MultiSim.simulate\<close>: one fresh \<^verbatim>\<open>OneSim\<close> per seed, in seed order.\<close>

definition MultiSim_loop :: "('g, 'f) library \<Rightarrow> 'f multisim \<Rightarrow> int \<Rightarrow> int \<Rightarrow> 'f multisim" where
  "MultiSim_loop L self n_steps n_iterations =
     fold (\<lambda>i self0.
             (let sim = OneSim2 L i;
                  (r, sim1) = simulate2 L sim n_steps
              in self0\<lparr>obs := obs self0 @ [sum_attr2 sim1]\<rparr>))
          (range_py n_iterations) self"

text \<open>
  \<^verbatim>\<open>MultiSim.simulate\<close> runs the loop, summarises \<^verbatim>\<open>self.obs\<close> and prints the mean: the
  result is the error of the summary, or the object and the line printed.
\<close>

definition MultiSim_simulate ::
  "('g, 'f) library \<Rightarrow> 'f multisim \<Rightarrow> int \<Rightarrow> int \<Rightarrow> error + ('f multisim \<times> 'f list)" where
  "MultiSim_simulate L self n_steps n_iterations =
     (let self1 = MultiSim_loop L self n_steps n_iterations
      in case SummaryStat L [] (obs self1) of
           Inl e \<Rightarrow> Inl e
         | Inr stat \<Rightarrow> Inr (self1, [get_mean stat]))"

section \<open>The drivers\<close>

definition N_STEPS :: int where
  "N_STEPS = 10000"

definition N_RUNS :: int where
  "N_RUNS = 100"

text \<open>
  \<^verbatim>\<open>RunSimSequential.py\<close>: one \<^verbatim>\<open>OneSim\<close> per seed, constructed, simulated and exported
  to \<^verbatim>\<open>'ResultsSequential'\<close> in seed order. The loop is stated for any number of runs and
  of steps; the script runs it at \<open>N_RUNS\<close> and \<open>N_STEPS\<close>. The timing that the scripts
  print is not modelled.
\<close>

definition sequential_loop :: "('g, 'f) library \<Rightarrow> int \<Rightarrow> int \<Rightarrow> 'f filesystem \<Rightarrow> 'f filesystem" where
  "sequential_loop L n_runs n_steps fs =
     fold (\<lambda>seed fs0.
             (let model = OneSim L seed;
                  (r, model1) = simulate L model n_steps
              in export_results model1 ''ResultsSequential'' fs0))
          (range_py n_runs) fs"

definition RunSimSequential :: "('g, 'f) library \<Rightarrow> 'f filesystem \<Rightarrow> 'f filesystem" where
  "RunSimSequential L fs = sequential_loop L N_RUNS N_STEPS fs"

text \<open>\<^verbatim>\<open>RunSimParallel.py\<close>: the replication set is constructed, then simulated.\<close>

definition parallel_run ::
  "('g, 'f) library \<Rightarrow> nat list \<Rightarrow> int \<Rightarrow> int \<Rightarrow> 'f filesystem \<Rightarrow>
   ('g, 'f) parallelmultisim \<times> 'f filesystem" where
  "parallel_run L sched n_runs n_steps fs =
     (let parallelModel = ParallelMultiSim L n_runs
      in ParallelMultiSim_simulate L sched parallelModel n_steps fs)"

definition RunSimParallel ::
  "('g, 'f) library \<Rightarrow> nat list \<Rightarrow> 'f filesystem \<Rightarrow> ('g, 'f) parallelmultisim \<times> 'f filesystem" where
  "RunSimParallel L sched fs = parallel_run L sched N_RUNS N_STEPS fs"

section \<open>Generator objects\<close>

text \<open>
  In the program a generator is an object: \<^verbatim>\<open>self.rng\<close> is a reference to it, a draw
  changes the object in place, and a process holds the generators of all the
  replications it has constructed. The store below makes this explicit: \<open>gens\<close> is the
  state of the generator at each address and \<open>fresh\<close> the address that the next
  construction takes.
\<close>

record 'g store =
  gens :: "nat \<Rightarrow> 'g"
  fresh :: nat

text \<open>
  Modelled from the spec: the generator class of \<^verbatim>\<open>RandomVariantGenerators\<close> is not among
  the sources. The spec gives the stochastic source a deterministic construction from
  the seed, an internal state that advances with each call, and no mutable state shared
  across instances: constructing a generator fills a new address from the seed, and a
  draw reads and advances the generator at the address it is given and no other.
\<close>

definition RNG_new :: "('g, 'f) library \<Rightarrow> int \<Rightarrow> 'g store \<Rightarrow> nat \<times> 'g store" where
  "RNG_new L s h = (fresh h, h\<lparr>gens := (gens h)(fresh h := RNG L s), fresh := Suc (fresh h)\<rparr>)"

definition random_sample_at :: "('g, 'f) library \<Rightarrow> nat \<Rightarrow> 'g store \<Rightarrow> 'f \<times> 'g store" where
  "random_sample_at L a h =
     (let (u, g) = random_sample L (gens h a) in (u, h\<lparr>gens := (gens h)(a := g)\<rparr>))"

definition sample_at :: "('g, 'f) library \<Rightarrow> beta_dist \<Rightarrow> nat \<Rightarrow> 'g store \<Rightarrow> 'f \<times> 'g store" where
  "sample_at L bt a h =
     (let (b, g) = sample L bt (gens h a) in (b, h\<lparr>gens := (gens h)(a := g)\<rparr>))"

text \<open>
  \<^verbatim>\<open>OneSim\<close> of \<^verbatim>\<open>SimModel/SimClasses.py\<close> over the store: the attribute \<^verbatim>\<open>rng\<close> is the
  address of the generator that \<^verbatim>\<open>__init__\<close> constructs, and \<^verbatim>\<open>simulate\<close> draws through it.
\<close>

record 'f onesim_obj =
  rng_at :: nat
  beta_of :: beta_dist
  sum_of :: "'f pynum"
  seed_of :: int

definition OneSim_new :: "('g, 'f) library \<Rightarrow> int \<Rightarrow> 'g store \<Rightarrow> 'f onesim_obj \<times> 'g store" where
  "OneSim_new L s h =
     (let (a, h1) = RNG_new L s h
      in (\<lparr>rng_at = a, beta_of = Beta 1 2, sum_of = PyInt 0, seed_of = s\<rparr>, h1))"

definition simulate_step_at ::
  "('g, 'f) library \<Rightarrow> 'f onesim_obj \<times> 'g store \<Rightarrow> 'f onesim_obj \<times> 'g store" where
  "simulate_step_at L st =
     (let (self, h) = st;
          (u, h1) = random_sample_at L (rng_at self) h;
          (b, h2) = sample_at L (beta_of self) (rng_at self) h1
      in (self\<lparr>sum_of := py_add L (sum_of self) (PyFloat (float_add L u b))\<rparr>, h2))"

definition simulate_at ::
  "('g, 'f) library \<Rightarrow> 'f onesim_obj \<Rightarrow> int \<Rightarrow> 'g store \<Rightarrow> 'f pyval \<times> 'f onesim_obj \<times> 'g store" where
  "simulate_at L self n_steps h =
     (PyNone, fold (\<lambda>i st. simulate_step_at L st) (range_py n_steps) (self\<lparr>sum_of := PyInt 0\<rparr>, h))"

text \<open>
  One invocation of \<^verbatim>\<open>OneSim(seed=s).simulate(n)\<close> in a process whose store is \<open>h\<close>: the
  instance and the store after it.
\<close>

definition fresh_run :: "('g, 'f) library \<Rightarrow> int \<Rightarrow> int \<Rightarrow> 'g store \<Rightarrow> 'f onesim_obj \<times> 'g store" where
  "fresh_run L s n h =
     (let (model, h1) = OneSim_new L s h;
          (r, st) = simulate_at L model n h1
      in st)"

text \<open>
  Two instances of one seed alive in the same process: both are constructed, then the
  first is simulated, then the second. The result is the pair of their sums.
\<close>

definition two_runs :: "('g, 'f) library \<Rightarrow> int \<Rightarrow> int \<Rightarrow> 'g store \<Rightarrow> 'f pynum \<times> 'f pynum" where
  "two_runs L s n h =
     (let (m1, h1) = OneSim_new L s h;
          (m2, h2) = OneSim_new L s h1;
          (r1, m1', h3) = simulate_at L m1 n h2;
          (r2, m2', h4) = simulate_at L m2 n h3
      in (sum_of m1', sum_of m2'))"

section \<open>Vocabulary of the properties\<close>

text \<open>The name of the file that holds the result of a seed.\<close>

definition seed_file :: "int \<Rightarrow> string" where
  "seed_file s = ''Seed '' @ str_int s @ ''.csv''"

text \<open>The outcome of the replication of a seed: the sum a fresh \<^verbatim>\<open>OneSim\<close> reaches.\<close>

definition outcome :: "('g, 'f) library \<Rightarrow> int \<Rightarrow> int \<Rightarrow> 'f pynum" where
  "outcome L s n_steps = sum_attr (snd (simulate L (OneSim L s) n_steps))"

text \<open>
  The variates that \<open>k\<close> iterations draw from a generator, in the order of drawing: one
  pair (uniform, beta) per iteration, and the generator after the last draw.
\<close>

fun draws :: "('g, 'f) library \<Rightarrow> beta_dist \<Rightarrow> nat \<Rightarrow> 'g \<Rightarrow> ('f \<times> 'f) list \<times> 'g" where
  "draws L bt 0 g = ([], g)"
| "draws L bt (Suc k) g =
     (let (u, g1) = random_sample L g;
          (b, g2) = sample L bt g1;
          (ds, g3) = draws L bt k g2
      in ((u, b) # ds, g3))"

text \<open>Adding the pairs of a list of draws to a running sum, first pair first.\<close>

definition accumulate :: "('g, 'f) library \<Rightarrow> 'f pynum \<Rightarrow> ('f \<times> 'f) list \<Rightarrow> 'f pynum" where
  "accumulate L acc ds = foldl (\<lambda>a (u, b). py_add L a (PyFloat (float_add L u b))) acc ds"

text \<open>The number that a string of decimal digits denotes.\<close>

definition digits_val :: "string \<Rightarrow> nat" where
  "digits_val cs = foldl (\<lambda>a c. 10 * a + (of_char c - 48)) 0 cs"

text \<open>
  A concrete library for the closed examples. The generator state is a counter started
  at the absolute value of the seed; every draw advances it by one; a uniform draw at
  counter \<open>g\<close> is \<open>(g mod 4) / 4\<close> and a beta draw is \<open>a / (a + b + g mod 2)\<close>; floats are
  rationals with exact addition.
\<close>

definition num_val :: "rat pynum \<Rightarrow> rat" where
  "num_val x = (case x of PyInt i \<Rightarrow> of_int i | PyFloat r \<Rightarrow> r)"

definition counter_library :: "(nat, rat) library" where
  "counter_library =
     \<lparr>RNG = (\<lambda>s. nat \<bar>s\<bar>),
      random_sample = (\<lambda>g. (of_nat (g mod 4) / 4, Suc g)),
      beta_sample = (\<lambda>a b g. (of_int a / of_int (a + b + int (g mod 2)), Suc g)),
      float_add = (+),
      float_of_int = of_int,
      float_mean = (\<lambda>xs. sum_list (map num_val xs) / of_nat (length xs))\<rparr>"

section \<open>Auxiliary facts\<close>

lemma simulate_step_fields:
  "rng (simulate_step L s) = snd (sample L (beta s) (snd (random_sample L (rng s))))"
  "beta (simulate_step L s) = beta s"
  "seed (simulate_step L s) = seed s"
  "sum_attr (simulate_step L s) =
     py_add L (sum_attr s)
       (PyFloat (float_add L (fst (random_sample L (rng s)))
          (fst (sample L (beta s) (snd (random_sample L (rng s)))))))"
  by (simp_all add: simulate_step_def case_prod_beta Let_def)

lemma fold_step_draws:
  "fold (\<lambda>i s. simulate_step L s) xs s =
     s\<lparr>rng := snd (draws L (beta s) (length xs) (rng s)),
       sum_attr := accumulate L (sum_attr s) (fst (draws L (beta s) (length xs) (rng s)))\<rparr>"
proof (induction xs arbitrary: s)
  case Nil
  show ?case by (simp add: accumulate_def)
next
  case (Cons x xs)
  have "fold (\<lambda>i s. simulate_step L s) (x # xs) s =
        fold (\<lambda>i s. simulate_step L s) xs (simulate_step L s)"
    by simp
  also have "\<dots> = (simulate_step L s)
      \<lparr>rng := snd (draws L (beta s) (length xs) (rng (simulate_step L s))),
       sum_attr := accumulate L (sum_attr (simulate_step L s))
          (fst (draws L (beta s) (length xs) (rng (simulate_step L s))))\<rparr>"
    by (simp only: Cons.IH simulate_step_fields(2))
  also have "\<dots> = s\<lparr>rng := snd (draws L (beta s) (length (x # xs)) (rng s)),
       sum_attr := accumulate L (sum_attr s) (fst (draws L (beta s) (length (x # xs)) (rng s)))\<rparr>"
    by (simp add: simulate_step_fields accumulate_def case_prod_beta Let_def)
  finally show ?case .
qed

lemma length_draws: "length (fst (draws L bt k g)) = k"
  by (induction k arbitrary: g) (simp_all add: case_prod_beta Let_def)

lemma simulate_draws:
  "simulate L self n =
     (PyNone, self\<lparr>rng := snd (draws L (beta self) (nat n) (rng self)),
       sum_attr := accumulate L (PyInt 0) (fst (draws L (beta self) (nat n) (rng self)))\<rparr>)"
  by (simp add: simulate_def fold_step_draws range_py_def)

lemma of_char_digit: "d < 10 \<Longrightarrow> (of_char (digit_char d) :: nat) = 48 + d"
  by (simp add: digit_char_def)

lemma digits_val_str_nat: "digits_val (str_nat n) = n"
proof (induction n rule: str_nat.induct)
  case (1 n)
  show ?case
  proof (cases "n < 10")
    case True
    then show ?thesis
      by (subst str_nat.simps) (simp add: digits_val_def of_char_digit)
  next
    case False
    have "digits_val (str_nat n) = 10 * digits_val (str_nat (n div 10)) + (of_char (digit_char (n mod 10)) - 48)"
      using False by (subst str_nat.simps) (simp add: digits_val_def)
    also have "\<dots> = 10 * (n div 10) + n mod 10"
      using False "1.IH" by (simp add: of_char_digit)
    finally show ?thesis by simp
  qed
qed

lemma str_nat_inj: "str_nat m = str_nat n \<Longrightarrow> m = n"
  by (metis digits_val_str_nat)

lemma str_nat_digits: "c \<in> set (str_nat n) \<Longrightarrow> \<exists>d<10. c = digit_char d"
proof (induction n rule: str_nat.induct)
  case (1 n)
  show ?case
  proof (cases "n < 10")
    case True
    with "1.prems" show ?thesis
      by (subst (asm) str_nat.simps) auto
  next
    case False
    with "1.prems" have "c \<in> set (str_nat (n div 10)) \<or> c = digit_char (n mod 10)"
      by (subst (asm) str_nat.simps) auto
    then show ?thesis
    proof
      assume "c \<in> set (str_nat (n div 10))"
      with False "1.IH" show ?thesis by simp
    next
      assume "c = digit_char (n mod 10)"
      moreover have "n mod 10 < 10" by simp
      ultimately show ?thesis by blast
    qed
  qed
qed

lemma minus_not_digit: "CHR ''-'' \<notin> set (str_nat n)"
proof
  assume "CHR ''-'' \<in> set (str_nat n)"
  then obtain d where d: "d < 10" "CHR ''-'' = digit_char d"
    using str_nat_digits by blast
  then have "(of_char (CHR ''-'') :: nat) = 48 + d"
    by (simp add: of_char_digit)
  then show False by simp
qed

lemma str_nat_nonempty: "str_nat n \<noteq> []"
  by (subst str_nat.simps) simp

lemma str_int_inj: "str_int i = str_int j \<Longrightarrow> i = j"
proof -
  assume eq: "str_int i = str_int j"
  have hd_nat: "\<And>n. hd (str_nat n) \<noteq> CHR ''-''"
    using minus_not_digit str_nat_nonempty by (metis hd_in_set)
  show ?thesis
  proof (cases "i < 0")
    case True
    note i = this
    show ?thesis
    proof (cases "j < 0")
      case True
      with i eq have "str_nat (nat (- i)) = str_nat (nat (- j))"
        by (simp add: str_int_def)
      then have "nat (- i) = nat (- j)" by (rule str_nat_inj)
      with i True show ?thesis by simp
    next
      case False
      with i eq have "CHR ''-'' # str_nat (nat (- i)) = str_nat (nat j)"
        by (simp add: str_int_def)
      then have "hd (str_nat (nat j)) = CHR ''-''" by (metis list.sel(1))
      with hd_nat show ?thesis by blast
    qed
  next
    case False
    note i = this
    show ?thesis
    proof (cases "j < 0")
      case True
      with i eq have "str_nat (nat i) = CHR ''-'' # str_nat (nat (- j))"
        by (simp add: str_int_def)
      then have "hd (str_nat (nat i)) = CHR ''-''" by (metis list.sel(1))
      with hd_nat show ?thesis by blast
    next
      case False
      with i eq have "str_nat (nat i) = str_nat (nat j)"
        by (simp add: str_int_def)
      then have "nat i = nat j" by (rule str_nat_inj)
      with i False show ?thesis by simp
    qed
  qed
qed

lemma seed_file_inj: "seed_file s = seed_file t \<longleftrightarrow> s = t"
  by (auto simp: seed_file_def dest: str_int_inj)

lemma models_ParallelMultiSim_aux:
  "fold (\<lambda>seed ms. ms @ [OneSim L seed]) xs acc = acc @ map (OneSim L) xs"
  by (induction xs arbitrary: acc) simp_all

lemma models_ParallelMultiSim: "models (ParallelMultiSim L N) = map (OneSim L) (range_py N)"
  by (simp add: ParallelMultiSim_def models_ParallelMultiSim_aux)

lemma simulate_seed: "seed (snd (simulate L self n)) = seed self"
  by (simp add: simulate_draws)

lemma export_results_upd:
  "export_results self d fs = fs((d, seed_file (seed self)) \<mapsto> [[PyInt (seed self), sum_attr self]])"
  by (simp add: export_results_def write_csv_def seed_file_def)

lemma fold_upd_in:
  "inj key \<Longrightarrow> k \<in> set ks \<Longrightarrow> fold (\<lambda>k m. m(key k \<mapsto> val k)) ks m (key k) = Some (val k)"
proof (induction ks arbitrary: k rule: rev_induct)
  case Nil
  then show ?case by simp
next
  case (snoc x xs)
  show ?case
  proof (cases "x = k")
    case True
    then show ?thesis by simp
  next
    case False
    with snoc.prems have "k \<in> set xs" "key x \<noteq> key k"
      by (auto dest: injD)
    with snoc.IH [OF snoc.prems(1)] show ?thesis by simp
  qed
qed

lemma fold_upd_notin:
  "x \<notin> key ` set ks \<Longrightarrow> fold (\<lambda>k m. m(key k \<mapsto> val k)) ks m x = m x"
  by (induction ks arbitrary: m rule: rev_induct) auto

lemma sequential_loop_fold:
  "sequential_loop L N n fs =
     fold (\<lambda>k m. m((''ResultsSequential'', seed_file k) \<mapsto> [[PyInt k, outcome L k n]]))
       (range_py N) fs"
proof -
  have "\<And>k fs0. (let model = OneSim L k; (r, model1) = simulate L model n
                  in export_results model1 ''ResultsSequential'' fs0) =
        fs0((''ResultsSequential'', seed_file k) \<mapsto> [[PyInt k, outcome L k n]])"
    by (simp add: case_prod_beta export_results_upd simulate_seed outcome_def OneSim_def)
  then show ?thesis
    by (simp add: sequential_loop_def)
qed

lemma pool_run_snd:
  "snd (pool_run f args sched (res, w)) =
     fold (\<lambda>i w. if i < length args then snd (f (args ! i) w) else w) sched w"
  by (induction sched arbitrary: res w) (simp_all add: case_prod_beta)

lemma pool_run_fst:
  assumes "\<And>a w. fst (f a w) = g a"
  shows "fst (pool_run f args sched (res, w)) i =
     (if i \<in> set sched \<and> i < length args then Some (g (args ! i)) else res i)"
  using assms
  by (induction sched arbitrary: res w) (auto simp: case_prod_beta)

lemma simulate_this_model_fst:
  "fst (simulate_this_model L arg fs) = snd (simulate L (fst arg) (snd arg))"
  by (simp add: simulate_this_model_def case_prod_beta)

lemma simulate_this_model_snd:
  "snd (simulate_this_model L arg fs) =
     export_results (snd (simulate L (fst arg) (snd arg))) ''ResultsParallel'' fs"
  by (simp add: simulate_this_model_def case_prod_beta)

lemma ParallelMultiSim_simulate_fst: "fst (ParallelMultiSim_simulate L sched self n fs) = self"
  by (simp add: ParallelMultiSim_simulate_def case_prod_beta)

lemma ParallelMultiSim_simulate_snd:
  "snd (ParallelMultiSim_simulate L sched self n fs) =
     fold (\<lambda>i w. if i < length (models self)
                  then export_results (snd (simulate L (models self ! i) n)) ''ResultsParallel'' w
                  else w) sched fs"
proof -
  have "\<And>i w. (if i < length (models self)
                then snd (simulate_this_model L (map (\<lambda>model. (model, n)) (models self) ! i) w)
                else w) =
               (if i < length (models self)
                then export_results (snd (simulate L (models self ! i) n)) ''ResultsParallel'' w
                else w)"
    by (simp add: simulate_this_model_snd)
  then show ?thesis
    by (simp add: ParallelMultiSim_simulate_def starmap_def case_prod_beta pool_run_snd)
qed

lemma range_py_nth: "i < nat N \<Longrightarrow> range_py N ! i = int i"
  by (simp add: range_py_def)

lemma parallel_run_fold:
  assumes "set sched \<subseteq> {0..<nat N}"
  shows "snd (parallel_run L sched N n fs) =
     fold (\<lambda>i m. m((''ResultsParallel'', seed_file (int i)) \<mapsto> [[PyInt (int i), outcome L (int i) n]]))
       sched fs"
proof -
  have len: "length (models (ParallelMultiSim L N)) = nat N"
    by (simp add: models_ParallelMultiSim range_py_def)
  have "\<And>i w. i \<in> set sched \<Longrightarrow>
      (if i < length (models (ParallelMultiSim L N))
       then export_results (snd (simulate L (models (ParallelMultiSim L N) ! i) n)) ''ResultsParallel'' w
       else w) =
      w((''ResultsParallel'', seed_file (int i)) \<mapsto> [[PyInt (int i), outcome L (int i) n]])"
  proof -
    fix i w assume "i \<in> set sched"
    with assms have i: "i < nat N" by auto
    then have "models (ParallelMultiSim L N) ! i = OneSim L (int i)"
      by (simp add: models_ParallelMultiSim range_py_def)
    with i len show "(if i < length (models (ParallelMultiSim L N))
       then export_results (snd (simulate L (models (ParallelMultiSim L N) ! i) n)) ''ResultsParallel'' w
       else w) =
      w((''ResultsParallel'', seed_file (int i)) \<mapsto> [[PyInt (int i), outcome L (int i) n]])"
      by (simp add: export_results_upd simulate_seed outcome_def OneSim_def)
  qed
  then show ?thesis
    unfolding parallel_run_def Let_def ParallelMultiSim_simulate_snd
    by (intro fold_cong) auto
qed

lemma key_inj: "inj (\<lambda>i. (d, seed_file (int i)))"
  by (auto simp: inj_on_def seed_file_inj)

lemma key_inj_int: "inj (\<lambda>k. (d, seed_file k))"
  by (auto simp: inj_on_def seed_file_inj)

lemma parallel_run_file:
  assumes "mset sched = mset [0..<nat N]" and "k \<in> set (range_py N)"
  shows "snd (parallel_run L sched N n fs) (''ResultsParallel'', seed_file k) = Some [[PyInt k, outcome L k n]]"
proof -
  from assms(1) have set: "set sched = {0..<nat N}"
    by (metis set_mset_mset set_upt)
  from assms(2) obtain i where i: "k = int i" "i < nat N"
    by (auto simp: range_py_def)
  with set have "i \<in> set sched" by simp
  then have "fold (\<lambda>i m. m((''ResultsParallel'', seed_file (int i)) \<mapsto> [[PyInt (int i), outcome L (int i) n]]))
       sched fs (''ResultsParallel'', seed_file (int i)) = Some [[PyInt (int i), outcome L (int i) n]]"
    by (rule fold_upd_in [OF key_inj])
  with set i show ?thesis
    by (simp add: parallel_run_fold)
qed

lemma parallel_run_other:
  assumes "mset sched = mset [0..<nat N]" and "p \<notin> (\<lambda>k. (''ResultsParallel'', seed_file k)) ` set (range_py N)"
  shows "snd (parallel_run L sched N n fs) p = fs p"
proof -
  from assms(1) have set: "set sched = {0..<nat N}"
    by (metis set_mset_mset set_upt)
  have "(\<lambda>i. (''ResultsParallel'', seed_file (int i))) ` set sched =
        (\<lambda>k. (''ResultsParallel'', seed_file k)) ` set (range_py N)"
    by (auto simp: set range_py_def)
  with assms(2) have "p \<notin> (\<lambda>i. (''ResultsParallel'', seed_file (int i))) ` set sched"
    by simp
  then have "fold (\<lambda>i m. m((''ResultsParallel'', seed_file (int i)) \<mapsto> [[PyInt (int i), outcome L (int i) n]]))
       sched fs p = fs p"
    by (rule fold_upd_notin)
  with set show ?thesis
    by (simp add: parallel_run_fold)
qed

lemma sequential_loop_file:
  assumes "k \<in> set (range_py N)"
  shows "sequential_loop L N n fs (''ResultsSequential'', seed_file k) = Some [[PyInt k, outcome L k n]]"
  unfolding sequential_loop_fold using assms by (rule fold_upd_in [OF key_inj_int])

lemma sequential_loop_other:
  assumes "p \<notin> (\<lambda>k. (''ResultsSequential'', seed_file k)) ` set (range_py N)"
  shows "sequential_loop L N n fs p = fs p"
  unfolding sequential_loop_fold using assms by (rule fold_upd_notin)

lemma outcome_counter_1_1: "outcome counter_library 1 1 = PyFloat (7 / 12)"
  by (simp add: outcome_def simulate_def OneSim_def range_py_def simulate_step_def counter_library_def)

lemma range_py_2: "range_py 2 = [0, 1]"
  by (simp add: range_py_def upt_conv_Cons)

lemma outcome_counter_3_2: "outcome counter_library 3 2 = PyFloat (5 / 3)"
  by (simp add: outcome_def simulate_def OneSim_def range_py_def simulate_step_def
      counter_library_def upt_conv_Cons)

lemma fold_out_of_range:
  "fold (\<lambda>i w. w) sched fs = fs"
  by (induction sched) simp_all

lemma simulate_step2_fields:
  "rng2 (simulate_step2 L s) = snd (sample L (beta2 s) (snd (random_sample L (rng2 s))))"
  "beta2 (simulate_step2 L s) = beta2 s"
  "num2 (simulate_step2 L s) = num2 s"
  "obs2 (simulate_step2 L s) = obs2 s"
  "sum_attr2 (simulate_step2 L s) =
     py_add L (sum_attr2 s)
       (PyFloat (float_add L (fst (random_sample L (rng2 s)))
          (fst (sample L (beta2 s) (snd (random_sample L (rng2 s)))))))"
  by (simp_all add: simulate_step2_def case_prod_beta Let_def)

lemma fold_step2_draws:
  "fold (\<lambda>i s. simulate_step2 L s) xs s =
     s\<lparr>rng2 := snd (draws L (beta2 s) (length xs) (rng2 s)),
       sum_attr2 := accumulate L (sum_attr2 s) (fst (draws L (beta2 s) (length xs) (rng2 s)))\<rparr>"
proof (induction xs arbitrary: s)
  case Nil
  show ?case by (simp add: accumulate_def)
next
  case (Cons x xs)
  have "fold (\<lambda>i s. simulate_step2 L s) (x # xs) s =
        fold (\<lambda>i s. simulate_step2 L s) xs (simulate_step2 L s)"
    by simp
  also have "\<dots> = (simulate_step2 L s)
      \<lparr>rng2 := snd (draws L (beta2 s) (length xs) (rng2 (simulate_step2 L s))),
       sum_attr2 := accumulate L (sum_attr2 (simulate_step2 L s))
          (fst (draws L (beta2 s) (length xs) (rng2 (simulate_step2 L s))))\<rparr>"
    by (simp only: Cons.IH simulate_step2_fields(2))
  also have "\<dots> = s\<lparr>rng2 := snd (draws L (beta2 s) (length (x # xs)) (rng2 s)),
       sum_attr2 := accumulate L (sum_attr2 s) (fst (draws L (beta2 s) (length (x # xs)) (rng2 s)))\<rparr>"
    by (simp add: simulate_step2_fields accumulate_def case_prod_beta Let_def)
  finally show ?case .
qed

lemma simulate2_fresh_sum: "sum_attr2 (snd (simulate2 L (OneSim2 L k) n)) = outcome L k n"
  by (simp add: simulate2_def Let_def fold_step2_draws OneSim2_def outcome_def simulate_draws
      OneSim_def range_py_def)

lemma fold_append_obs:
  "obs (fold (\<lambda>k self0. self0\<lparr>obs := obs self0 @ [f k]\<rparr>) ks self) = obs self @ map f ks"
  by (induction ks arbitrary: self) simp_all

lemma MultiSim_loop_obs:
  "obs (MultiSim_loop L self n N) = obs self @ map (\<lambda>k. outcome L k n) (range_py N)"
proof -
  have body: "(\<lambda>i self0.
             (let sim = OneSim2 L i;
                  (r, sim1) = simulate2 L sim n
              in self0\<lparr>obs := obs self0 @ [sum_attr2 sim1]\<rparr>)) =
        (\<lambda>k self0. self0\<lparr>obs := obs self0 @ [outcome L k n]\<rparr>)"
    by (simp add: fun_eq_iff case_prod_beta simulate2_fresh_sum)
  show ?thesis
    unfolding MultiSim_loop_def body by (rule fold_append_obs)
qed

lemma starmap_results:
  assumes "mset sched = mset [0..<nat N]"
  shows "fst (starmap (simulate_this_model L)
                (map (\<lambda>model. (model, n)) (models (ParallelMultiSim L N))) sched fs) =
         map (\<lambda>k. Some (snd (simulate L (OneSim L k) n))) (range_py N)"
proof -
  from assms have set: "set sched = {0..<nat N}"
    by (metis set_mset_mset set_upt)
  let ?args = "map (\<lambda>model. (model, n)) (models (ParallelMultiSim L N))"
  have len: "length ?args = nat N"
    by (simp add: models_ParallelMultiSim range_py_def)
  have res: "\<And>i. fst (pool_run (simulate_this_model L) ?args sched (Map.empty, fs)) i =
      (if i \<in> set sched \<and> i < length ?args
       then Some (snd (simulate L (fst (?args ! i)) (snd (?args ! i)))) else Map.empty i)"
    by (rule pool_run_fst) (rule simulate_this_model_fst)
  have "fst (starmap (simulate_this_model L) ?args sched fs) =
        map (fst (pool_run (simulate_this_model L) ?args sched (Map.empty, fs))) [0..<nat N]"
    by (simp add: starmap_def case_prod_beta len del: length_map)
  also have "\<dots> = map (\<lambda>i. Some (snd (simulate L (OneSim L (int i)) n))) [0..<nat N]"
  proof (rule map_cong [OF refl])
    fix i assume "i \<in> set [0..<nat N]"
    then have i: "i < nat N" by simp
    have a: "?args ! i = (OneSim L (int i), n)"
      using i by (simp add: models_ParallelMultiSim range_py_def)
    have m: "i \<in> set sched \<and> i < length ?args"
      using i set len by simp
    show "fst (pool_run (simulate_this_model L) ?args sched (Map.empty, fs)) i =
          Some (snd (simulate L (OneSim L (int i)) n))"
      by (simp only: res m if_True a fst_conv snd_conv simp_thms)
  qed
  also have "\<dots> = map (\<lambda>k. Some (snd (simulate L (OneSim L k) n))) (range_py N)"
    by (simp add: range_py_def comp_def)
  finally show ?thesis .
qed

lemma parallel_run_schedule_independent:
  assumes "mset sched = mset [0..<nat N]" and "mset sched' = mset [0..<nat N]"
  shows "snd (parallel_run L sched N n fs) = snd (parallel_run L sched' N n fs)"
proof
  fix p
  show "snd (parallel_run L sched N n fs) p = snd (parallel_run L sched' N n fs) p"
  proof (cases "p \<in> (\<lambda>k. (''ResultsParallel'', seed_file k)) ` set (range_py N)")
    case True
    then obtain k where k: "k \<in> set (range_py N)" "p = (''ResultsParallel'', seed_file k)"
      by blast
    then show ?thesis
      by (simp add: parallel_run_file [OF assms(1)] parallel_run_file [OF assms(2)])
  next
    case False
    then show ?thesis
      by (simp add: parallel_run_other [OF assms(1)] parallel_run_other [OF assms(2)])
  qed
qed

lemma outcome_counter_0_1: "outcome counter_library 0 1 = PyFloat (1 / 4)"
  by (simp add: outcome_def simulate_def OneSim_def range_py_def simulate_step_def counter_library_def)

lemma str_int_17: "str_int 17 = ''17''"
  by code_simp

lemma fold_models_written:
  assumes "\<exists>i \<in> set sched. i < length ms \<and> key (ms ! i) = p"
  shows "\<exists>i \<in> set sched. i < length ms \<and> key (ms ! i) = p \<and>
           fold (\<lambda>i w. if i < length ms then w(key (ms ! i) \<mapsto> val (ms ! i)) else w) sched fs p =
             Some (val (ms ! i))"
  using assms
proof (induction sched rule: rev_induct)
  case Nil
  then show ?case by simp
next
  case (snoc x xs)
  show ?case
  proof (cases "x < length ms \<and> key (ms ! x) = p")
    case True
    then show ?thesis by auto
  next
    case False
    with snoc.prems have "\<exists>i \<in> set xs. i < length ms \<and> key (ms ! i) = p"
      by auto
    from snoc.IH [OF this] obtain i where
      "i \<in> set xs" "i < length ms" "key (ms ! i) = p"
      "fold (\<lambda>i w. if i < length ms then w(key (ms ! i) \<mapsto> val (ms ! i)) else w) xs fs p =
         Some (val (ms ! i))"
      by blast
    with False show ?thesis by auto
  qed
qed

lemma fold_models_untouched:
  assumes "\<forall>i \<in> set sched. i < length ms \<longrightarrow> key (ms ! i) \<noteq> p"
  shows "fold (\<lambda>i w. if i < length ms then w(key (ms ! i) \<mapsto> val (ms ! i)) else w) sched fs p = fs p"
  using assms by (induction sched rule: rev_induct) auto

lemma ParallelMultiSim_simulate_fold:
  "snd (ParallelMultiSim_simulate L sched self n fs) =
     fold (\<lambda>i w. if i < length (models self)
                  then w((''ResultsParallel'', seed_file (seed (models self ! i))) \<mapsto>
                         [[PyInt (seed (models self ! i)), sum_attr (snd (simulate L (models self ! i) n))]])
                  else w) sched fs"
  by (simp add: ParallelMultiSim_simulate_snd export_results_upd simulate_seed cong: if_cong)

lemma simulate_step_at_eq:
  "simulate_step_at L (self, h) =
     (self\<lparr>sum_of := py_add L (sum_of self)
         (PyFloat (float_add L (fst (random_sample L (gens h (rng_at self))))
            (fst (sample L (beta_of self) (snd (random_sample L (gens h (rng_at self))))))))\<rparr>,
      h\<lparr>gens := (gens h)(rng_at self :=
         snd (sample L (beta_of self) (snd (random_sample L (gens h (rng_at self))))))\<rparr>)"
  by (simp add: simulate_step_at_def random_sample_at_def sample_at_def case_prod_beta Let_def)

lemma fold_step_at_draws:
  "fold (\<lambda>i st. simulate_step_at L st) xs (self, h) =
     (self\<lparr>sum_of := accumulate L (sum_of self)
         (fst (draws L (beta_of self) (length xs) (gens h (rng_at self))))\<rparr>,
      h\<lparr>gens := (gens h)(rng_at self :=
         snd (draws L (beta_of self) (length xs) (gens h (rng_at self))))\<rparr>)"
proof (induction xs arbitrary: self h)
  case Nil
  show ?case by (simp add: accumulate_def)
next
  case (Cons x xs)
  have "fold (\<lambda>i st. simulate_step_at L st) (x # xs) (self, h) =
        fold (\<lambda>i st. simulate_step_at L st) xs (simulate_step_at L (self, h))"
    by simp
  also have "\<dots> = (self\<lparr>sum_of := accumulate L (sum_of self)
         (fst (draws L (beta_of self) (length (x # xs)) (gens h (rng_at self))))\<rparr>,
      h\<lparr>gens := (gens h)(rng_at self :=
         snd (draws L (beta_of self) (length (x # xs)) (gens h (rng_at self))))\<rparr>)"
    unfolding simulate_step_at_eq Cons.IH
    by (simp add: accumulate_def case_prod_beta Let_def)
  finally show ?case .
qed

lemma simulate_at_draws:
  "simulate_at L self n h =
     (PyNone,
      self\<lparr>sum_of := accumulate L (PyInt 0)
         (fst (draws L (beta_of self) (nat n) (gens h (rng_at self))))\<rparr>,
      h\<lparr>gens := (gens h)(rng_at self :=
         snd (draws L (beta_of self) (nat n) (gens h (rng_at self))))\<rparr>)"
  by (simp add: simulate_at_def fold_step_at_draws range_py_def)

lemma outcome_draws:
  "outcome L s n = accumulate L (PyInt 0) (fst (draws L (Beta 1 2) (nat n) (RNG L s)))"
  by (simp add: outcome_def simulate_draws OneSim_def)

lemma fresh_run_sum: "sum_of (fst (fresh_run L s n h)) = outcome L s n"
  by (simp add: fresh_run_def OneSim_new_def RNG_new_def simulate_at_draws outcome_draws)

lemma two_runs_sums: "two_runs L s n h = (outcome L s n, outcome L s n)"
  by (simp add: two_runs_def OneSim_new_def RNG_new_def simulate_at_draws outcome_draws)

lemma fresh_run_frame: "a \<noteq> fresh h \<Longrightarrow> gens (snd (fresh_run L s n h)) a = gens h a"
  by (simp add: fresh_run_def OneSim_new_def RNG_new_def simulate_at_draws)

lemma fold_append_rows:
  "fold (\<lambda>x rows0. rows0 @ [r]) xs acc = acc @ map (\<lambda>x. r) xs"
  by (induction xs arbitrary: acc) simp_all

lemma export_results2_upd:
  "export_results2 self fs =
     fs((''Results'', str_int (num2 self) @ ''.csv'') \<mapsto> map (\<lambda>obs. [obs2 self]) (obs2 self))"
  by (simp add: export_results2_def write_csv_def fold_append_rows)

lemma str_int_1: "str_int 1 = ''1''"
  by code_simp

section \<open>Properties\<close>

text \<open>
  C1. For every number of replications \<open>N\<close> and step count \<open>n\<close>, and for every order
  \<open>sched\<close> in which the pool completes the tasks, the parallel run leaves for each seed
  \<open>k\<close> of \<open>0..N-1\<close> the same rows in \<^verbatim>\<open>ResultsParallel/Seed k.csv\<close> as the sequential
  driver leaves in \<^verbatim>\<open>ResultsSequential/Seed k.csv\<close>: the single row of the seed and of the
  outcome of that seed. Neither run touches another file of its directory, so the two
  sets of outcomes are the same, matched by seed.
\<close>

theorem parallel_matches_sequential:
  assumes "mset sched = mset [0..<nat N]"
  shows "(\<forall>k \<in> set (range_py N).
            snd (parallel_run L sched N n fs) (''ResultsParallel'', seed_file k) =
              sequential_loop L N n fs' (''ResultsSequential'', seed_file k) \<and>
            sequential_loop L N n fs' (''ResultsSequential'', seed_file k) =
              Some [[PyInt k, outcome L k n]]) \<and>
         (\<forall>name. name \<notin> seed_file ` set (range_py N) \<longrightarrow>
            snd (parallel_run L sched N n fs) (''ResultsParallel'', name) = fs (''ResultsParallel'', name) \<and>
            sequential_loop L N n fs' (''ResultsSequential'', name) = fs' (''ResultsSequential'', name))"
proof (intro conjI ballI allI impI)
  fix k assume k: "k \<in> set (range_py N)"
  show "snd (parallel_run L sched N n fs) (''ResultsParallel'', seed_file k) =
        sequential_loop L N n fs' (''ResultsSequential'', seed_file k)"
    by (simp add: parallel_run_file [OF assms k] sequential_loop_file [OF k])
  show "sequential_loop L N n fs' (''ResultsSequential'', seed_file k) = Some [[PyInt k, outcome L k n]]"
    by (rule sequential_loop_file [OF k])
next
  fix name assume name: "name \<notin> seed_file ` set (range_py N)"
  then have "(''ResultsParallel'', name) \<notin> (\<lambda>k. (''ResultsParallel'', seed_file k)) ` set (range_py N)"
    by auto
  then show "snd (parallel_run L sched N n fs) (''ResultsParallel'', name) = fs (''ResultsParallel'', name)"
    by (rule parallel_run_other [OF assms])
  from name have "(''ResultsSequential'', name) \<notin> (\<lambda>k. (''ResultsSequential'', seed_file k)) ` set (range_py N)"
    by auto
  then show "sequential_loop L N n fs' (''ResultsSequential'', name) = fs' (''ResultsSequential'', name)"
    by (rule sequential_loop_other)
qed

theorem parallel_matches_sequential_witness:
  "mset [1, 0] = mset [0..<nat 2] \<and>
   snd (parallel_run counter_library [1, 0] 2 1 Map.empty) (''ResultsParallel'', seed_file 1) =
     sequential_loop counter_library 2 1 Map.empty (''ResultsSequential'', seed_file 1) \<and>
   sequential_loop counter_library 2 1 Map.empty (''ResultsSequential'', seed_file 1) =
     Some [[PyInt 1, PyFloat (7 / 12)]]"
proof -
  have h: "mset [1, 0] = mset [0..<nat 2]"
    by (simp add: upt_conv_Cons)
  have k: "(1::int) \<in> set (range_py 2)"
    by (simp add: range_py_2)
  from parallel_matches_sequential [OF h, of counter_library 1 Map.empty Map.empty] k
  show ?thesis
    using h by (simp add: outcome_counter_1_1)
qed

text \<open>
  C2, as stated, fails. \<^verbatim>\<open>ParallelMultiSim\<close> has no sequence of outcomes: the workers
  simulate copies, the list that \<^verbatim>\<open>starmap\<close> returns is dropped, and the models that the
  replication set holds after the run still carry the sum 0 they were constructed with.
  With one replication of one step, entry 0 of the set reads 0 while the outcome of seed
  0 is 1/4.
\<close>

theorem parallel_outcomes_counterexample:
  "sum_attr (models (fst (parallel_run counter_library [0] 1 1 Map.empty)) ! 0) = PyInt 0 \<and>
   outcome counter_library 0 1 = PyFloat (1 / 4)"
  by (simp add: parallel_run_def ParallelMultiSim_simulate_fst models_ParallelMultiSim range_py_def
      OneSim_def outcome_def simulate_def simulate_step_def counter_library_def)

text \<open>
  C2, amended. After a parallel run over seeds \<open>0..N-1\<close>, whatever the order in which the
  pool completes the tasks: the file \<^verbatim>\<open>ResultsParallel/Seed k.csv\<close> holds the row of seed
  \<open>k\<close> and its outcome; the whole file system is the same as under any other order; the
  list that \<^verbatim>\<open>starmap\<close> returns (and the code drops) holds the simulated model of seed \<open>k\<close>
  at position \<open>k\<close>; and the replication set itself is left as constructed. In the
  sequential \<^verbatim>\<open>MultiSim\<close>, entry \<open>k\<close> of \<^verbatim>\<open>obs\<close> is the outcome of seed \<open>k\<close>.
\<close>

theorem results_keyed_by_seed:
  assumes "mset sched = mset [0..<nat N]" and "mset sched' = mset [0..<nat N]"
  shows "(\<forall>k \<in> set (range_py N).
            snd (parallel_run L sched N n fs) (''ResultsParallel'', seed_file k) =
              Some [[PyInt k, outcome L k n]]) \<and>
         snd (parallel_run L sched N n fs) = snd (parallel_run L sched' N n fs) \<and>
         fst (starmap (simulate_this_model L)
                (map (\<lambda>model. (model, n)) (models (ParallelMultiSim L N))) sched fs) =
           map (\<lambda>k. Some (snd (simulate L (OneSim L k) n))) (range_py N) \<and>
         fst (parallel_run L sched N n fs) = ParallelMultiSim L N \<and>
         obs (MultiSim_loop L MultiSim n N) = map (\<lambda>k. outcome L k n) (range_py N)"
proof (intro conjI ballI)
  fix k assume "k \<in> set (range_py N)"
  then show "snd (parallel_run L sched N n fs) (''ResultsParallel'', seed_file k) =
              Some [[PyInt k, outcome L k n]]"
    by (rule parallel_run_file [OF assms(1)])
next
  show "snd (parallel_run L sched N n fs) = snd (parallel_run L sched' N n fs)"
    by (rule parallel_run_schedule_independent [OF assms])
next
  show "fst (starmap (simulate_this_model L)
                (map (\<lambda>model. (model, n)) (models (ParallelMultiSim L N))) sched fs) =
           map (\<lambda>k. Some (snd (simulate L (OneSim L k) n))) (range_py N)"
    by (rule starmap_results [OF assms(1)])
next
  show "fst (parallel_run L sched N n fs) = ParallelMultiSim L N"
    by (simp add: parallel_run_def ParallelMultiSim_simulate_fst)
next
  show "obs (MultiSim_loop L MultiSim n N) = map (\<lambda>k. outcome L k n) (range_py N)"
    by (simp add: MultiSim_loop_obs MultiSim_def)
qed

theorem results_keyed_by_seed_witness:
  "mset [1, 0] = mset [0..<nat 2] \<and> mset [0, 1] = mset [0..<nat 2] \<and>
   snd (parallel_run counter_library [1, 0] 2 1 Map.empty) (''ResultsParallel'', seed_file 0) =
     Some [[PyInt 0, PyFloat (1 / 4)]] \<and>
   snd (parallel_run counter_library [1, 0] 2 1 Map.empty) (''ResultsParallel'', seed_file 1) =
     Some [[PyInt 1, PyFloat (7 / 12)]] \<and>
   snd (parallel_run counter_library [1, 0] 2 1 Map.empty) =
     snd (parallel_run counter_library [0, 1] 2 1 Map.empty) \<and>
   obs (MultiSim_loop counter_library MultiSim 1 2) = [PyFloat (1 / 4), PyFloat (7 / 12)]"
proof -
  have h: "mset [1, 0] = mset [0..<nat 2]" and h': "mset [0, 1] = mset [0..<nat 2]"
    by (simp_all add: upt_conv_Cons)
  note t = results_keyed_by_seed [OF h h', of counter_library 1 Map.empty]
  from t have a: "\<forall>k \<in> set (range_py 2).
      snd (parallel_run counter_library [1, 0] 2 1 Map.empty) (''ResultsParallel'', seed_file k) =
        Some [[PyInt k, outcome counter_library k 1]]"
    by (rule conjunct1)
  from t have b: "snd (parallel_run counter_library [1, 0] 2 1 Map.empty) =
      snd (parallel_run counter_library [0, 1] 2 1 Map.empty)"
    by blast
  from t have c: "obs (MultiSim_loop counter_library MultiSim 1 2) =
      map (\<lambda>k. outcome counter_library k 1) (range_py 2)"
    by blast
  from a have a0: "snd (parallel_run counter_library [1, 0] 2 1 Map.empty) (''ResultsParallel'', seed_file 0) =
      Some [[PyInt 0, PyFloat (1 / 4)]]"
    by (simp add: range_py_2 outcome_counter_0_1)
  from a have a1: "snd (parallel_run counter_library [1, 0] 2 1 Map.empty) (''ResultsParallel'', seed_file 1) =
      Some [[PyInt 1, PyFloat (7 / 12)]]"
    by (simp add: range_py_2 outcome_counter_1_1)
  from c have c': "obs (MultiSim_loop counter_library MultiSim 1 2) = [PyFloat (1 / 4), PyFloat (7 / 12)]"
    by (simp add: range_py_2 outcome_counter_0_1 outcome_counter_1_1)
  from h h' a0 a1 b c' show ?thesis
    by (intro conjI)
qed

text \<open>
  C3. The library's draws are functions of the state of the generator they are given;
  what is established of the code is that a replication draws from nothing else. An
  invocation of \<^verbatim>\<open>OneSim(seed=s).simulate(n)\<close> constructs its own generator from \<open>s\<close> and
  draws only through it, so the sum it reaches is the same in every process state: it
  does not depend on the generators that exist already, on their states, or on the
  address its own generator takes. Two instances of one seed that are alive together and
  simulated one after the other reach the same sum, and an invocation leaves every other
  generator as it was.
\<close>

theorem independent_runs_agree:
  "sum_of (fst (fresh_run L s n h1)) = sum_of (fst (fresh_run L s n h2)) \<and>
   fst (two_runs L s n h) = snd (two_runs L s n h) \<and>
   sum_of (fst (fresh_run L s n h1)) = outcome L s n \<and>
   (\<forall>a. a \<noteq> fresh h1 \<longrightarrow> gens (snd (fresh_run L s n h1)) a = gens h1 a)"
  by (simp add: fresh_run_sum two_runs_sums fresh_run_frame)

theorem independent_runs_agree_witness:
  "sum_of (fst (fresh_run counter_library 3 2 \<lparr>gens = (\<lambda>a. 9), fresh = 4\<rparr>)) = PyFloat (5 / 3) \<and>
   sum_of (fst (fresh_run counter_library 3 2 \<lparr>gens = (\<lambda>a. 0), fresh = 0\<rparr>)) = PyFloat (5 / 3) \<and>
   fst (two_runs counter_library 3 2 \<lparr>gens = (\<lambda>a. 9), fresh = 4\<rparr>) =
     snd (two_runs counter_library 3 2 \<lparr>gens = (\<lambda>a. 9), fresh = 4\<rparr>) \<and>
   gens (snd (fresh_run counter_library 3 2 \<lparr>gens = (\<lambda>a. 9), fresh = 4\<rparr>)) 0 = 9"
proof -
  let ?h1 = "\<lparr>gens = (\<lambda>a. 9::nat), fresh = 4\<rparr>"
  let ?h2 = "\<lparr>gens = (\<lambda>a. 0::nat), fresh = 0\<rparr>"
  note t = independent_runs_agree [of counter_library 3 2 ?h1 ?h2 ?h1]
  from t have e: "sum_of (fst (fresh_run counter_library 3 2 ?h1)) =
      sum_of (fst (fresh_run counter_library 3 2 ?h2))"
    by (rule conjunct1)
  from t have o: "sum_of (fst (fresh_run counter_library 3 2 ?h1)) = outcome counter_library 3 2"
    by blast
  from t have w: "fst (two_runs counter_library 3 2 ?h1) = snd (two_runs counter_library 3 2 ?h1)"
    by blast
  from t have f: "\<forall>a. a \<noteq> fresh ?h1 \<longrightarrow> gens (snd (fresh_run counter_library 3 2 ?h1)) a = gens ?h1 a"
    by blast
  from o have a1: "sum_of (fst (fresh_run counter_library 3 2 ?h1)) = PyFloat (5 / 3)"
    by (simp only: outcome_counter_3_2)
  from e a1 have a2: "sum_of (fst (fresh_run counter_library 3 2 ?h2)) = PyFloat (5 / 3)"
    by simp
  from f have a3: "gens (snd (fresh_run counter_library 3 2 ?h1)) 0 = 9"
    by simp
  from a1 a2 w a3 show ?thesis by (intro conjI)
qed

text \<open>
  C4, as stated, fails. The sum is reset but the generator is not: the second run on the
  same instance draws the next variates of the stream. With the counter generator and
  seed 0, one step gives 1/4 and a second run of one step gives 3/4.
\<close>

theorem simulate_twice_counterexample:
  "sum_attr (snd (simulate counter_library (snd (simulate counter_library (OneSim counter_library 0) 1)) 1)) \<noteq>
   sum_attr (snd (simulate counter_library (OneSim counter_library 0) 1))"
  by (simp add: simulate_def OneSim_def range_py_def simulate_step_def counter_library_def)

text \<open>
  C4, amended. \<^verbatim>\<open>simulate\<close> resets the sum to 0 before accumulating, so the sum it
  reaches does not depend on the sum the instance held before, and nothing is accumulated
  across runs: a second run in succession behaves as one run of an instance whose
  generator stands where the first run left it, and its sum is the sum of the variates of
  that second run alone.
\<close>

theorem simulate_resets_sum:
  "sum_attr (snd (simulate L (self\<lparr>sum_attr := v\<rparr>) n)) = sum_attr (snd (simulate L self n)) \<and>
   snd (simulate L (snd (simulate L self n)) n) =
     snd (simulate L (self\<lparr>rng := rng (snd (simulate L self n))\<rparr>) n) \<and>
   sum_attr (snd (simulate L (snd (simulate L self n)) n)) =
     accumulate L (PyInt 0)
       (fst (draws L (beta self) (nat n) (snd (draws L (beta self) (nat n) (rng self)))))"
  by (simp add: simulate_draws)

text \<open>
  C5. A step count of 0 is accepted: the loop body is not entered, the call returns
  normally and the accumulated value is the integer 0, for every instance (freshly
  constructed or not). The same holds for a fresh \<^verbatim>\<open>OneSim\<close> of \<^verbatim>\<open>SimClasses2.py\<close>.
\<close>

theorem simulate_zero_steps:
  "simulate L self 0 = (PyNone, self\<lparr>sum_attr := PyInt 0\<rparr>) \<and>
   sum_attr (snd (simulate L (OneSim L s) 0)) = PyInt 0 \<and>
   sum_attr2 (snd (simulate2 L (OneSim2 L s) 0)) = PyInt 0"
  by (simp add: simulate_def simulate2_def OneSim2_def range_py_def)

text \<open>
  C6, as stated, fails. \<^verbatim>\<open>simulate\<close> has no \<^verbatim>\<open>return\<close> statement: the call evaluates to
  \<^verbatim>\<open>None\<close>, not to the accumulated value.
\<close>

theorem simulate_returns_counterexample:
  "fst (simulate counter_library (OneSim counter_library 0) 1) \<noteq>
   PyNum (sum_attr (snd (simulate counter_library (OneSim counter_library 0) 1)))"
  by (simp add: simulate_def)

text \<open>
  C6, amended. For every step count \<open>n\<close>, \<^verbatim>\<open>simulate\<close> runs \<open>n\<close> iterations (none when
  \<open>n\<close> is negative); each iteration draws one uniform variate and then one Beta(1,2)
  variate from the generator of the instance and adds their sum to the accumulated
  value, which starts at 0; the method leaves the final value in the attribute \<^verbatim>\<open>sum\<close>
  and returns \<^verbatim>\<open>None\<close>.
\<close>

theorem simulate_iterations:
  "simulate L self n =
     (PyNone, self\<lparr>rng := snd (draws L (beta self) (nat n) (rng self)),
       sum_attr := accumulate L (PyInt 0) (fst (draws L (beta self) (nat n) (rng self)))\<rparr>) \<and>
   length (fst (draws L (beta self) (nat n) (rng self))) = nat n \<and>
   draws L (Beta 1 2) (Suc k) g =
     ((fst (random_sample L g), fst (beta_sample L 1 2 (snd (random_sample L g)))) #
        fst (draws L (Beta 1 2) k (snd (beta_sample L 1 2 (snd (random_sample L g))))),
      snd (draws L (Beta 1 2) k (snd (beta_sample L 1 2 (snd (random_sample L g))))))"
  by (simp add: simulate_draws length_draws case_prod_beta)

text \<open>
  C7, as stated, fails. The code has no check of either number and no
  \<^verbatim>\<open>ConfigurationError\<close>: a negative number of replications gives an empty replication
  set and a negative step count gives a run of no iteration, both without any error.
\<close>

theorem invalid_configuration_counterexample:
  "ParallelMultiSim counter_library (- 1) = \<lparr>models = []\<rparr> \<and>
   simulate counter_library (OneSim counter_library 0) (- 1) = (PyNone, OneSim counter_library 0)"
  by (simp add: ParallelMultiSim_def simulate_def range_py_def OneSim_def)

text \<open>
  C7, amended. A number of replications \<open>N \<le> 0\<close> and a step count \<open>n \<le> 0\<close> are accepted
  without error: the replication set is constructed with no replication, its parallel
  run writes nothing, and \<^verbatim>\<open>simulate\<close> performs no iteration and leaves the sum 0.
\<close>

theorem invalid_configuration_accepted:
  assumes "N \<le> 0" and "n \<le> 0"
  shows "ParallelMultiSim L N = \<lparr>models = []\<rparr> \<and>
         parallel_run L sched N n' fs = (\<lparr>models = []\<rparr>, fs) \<and>
         simulate L self n = (PyNone, self\<lparr>sum_attr := PyInt 0\<rparr>)"
proof -
  from assms(1) have m: "ParallelMultiSim L N = \<lparr>models = []\<rparr>"
    by (simp add: ParallelMultiSim_def range_py_def)
  have "fst (parallel_run L sched N n' fs) = \<lparr>models = []\<rparr>"
    by (simp add: parallel_run_def ParallelMultiSim_simulate_fst m)
  moreover have "snd (parallel_run L sched N n' fs) = fs"
    by (simp add: parallel_run_def ParallelMultiSim_simulate_snd m fold_out_of_range)
  ultimately have "parallel_run L sched N n' fs = (\<lparr>models = []\<rparr>, fs)"
    by (metis prod.collapse)
  moreover from assms(2) have "simulate L self n = (PyNone, self\<lparr>sum_attr := PyInt 0\<rparr>)"
    by (simp add: simulate_def range_py_def)
  ultimately show ?thesis using m by simp
qed

theorem invalid_configuration_accepted_witness:
  "(- 3::int) \<le> 0 \<and> (- 2::int) \<le> 0 \<and>
   ParallelMultiSim counter_library (- 3) = \<lparr>models = []\<rparr> \<and>
   parallel_run counter_library [0, 1] (- 3) 5 Map.empty = (\<lparr>models = []\<rparr>, Map.empty) \<and>
   simulate counter_library (OneSim counter_library 4) (- 2) = (PyNone, OneSim counter_library 4)"
  using invalid_configuration_accepted [of "- 3" "- 2" counter_library "[0, 1]" 5 Map.empty "OneSim counter_library 4"]
  by (simp add: OneSim_def)

text \<open>
  C8, as stated, fails for the \<^verbatim>\<open>OneSim\<close> of \<^verbatim>\<open>PyUsingSimPy/SimClasses2.py\<close>: its
  \<^verbatim>\<open>export_results\<close> takes no directory and names the file after the seed alone. After
  one run of one step with seed 1 there is no file \<^verbatim>\<open>Seed 1.csv\<close>; the file is
  \<^verbatim>\<open>Results/1.csv\<close>, and its row is not the seed and the sum.
\<close>

theorem export_results_counterexample:
  "export_results2 (snd (simulate2 counter_library (OneSim2 counter_library 1) 1)) Map.empty
     (''Results'', ''Seed 1.csv'') = None \<and>
   export_results2 (snd (simulate2 counter_library (OneSim2 counter_library 1) 1)) Map.empty
     (''Results'', ''1.csv'') = Some [[[PyFloat (7 / 12)]]]"
  by (simp add: export_results2_upd simulate2_def OneSim2_def range_py_def simulate_step2_def
      counter_library_def str_int_1)

text \<open>
  C8, amended. For every replication of \<^verbatim>\<open>SimModel/SimClasses.py\<close>, \<^verbatim>\<open>export_results\<close>
  writes exactly the one row \<open>[seed, sum]\<close> to the file \<^verbatim>\<open>Seed {seed}.csv\<close> of the
  directory it is given. For every replication of \<^verbatim>\<open>PyUsingSimPy/SimClasses2.py\<close> it
  writes one row per recorded observation to the file \<^verbatim>\<open>{seed}.csv\<close> of the fixed
  directory \<^verbatim>\<open>Results\<close>. In both, no other file changes and two replications get the same
  file name only when they have the same seed.
\<close>

theorem export_results_files:
  "export_results self directory fs (directory, ''Seed '' @ str_int (seed self) @ ''.csv'') =
     Some [[PyInt (seed self), sum_attr self]] \<and>
   (\<forall>p. p \<noteq> (directory, ''Seed '' @ str_int (seed self) @ ''.csv'') \<longrightarrow>
        export_results self directory fs p = fs p) \<and>
   (\<forall>other. (''Seed '' @ str_int (seed self) @ ''.csv'' = ''Seed '' @ str_int (seed other) @ ''.csv'') =
        (seed self = seed other)) \<and>
   (\<exists>rows. export_results2 self2 fs2 (''Results'', str_int (num2 self2) @ ''.csv'') = Some rows \<and>
        length rows = length (obs2 self2)) \<and>
   (\<forall>p. p \<noteq> (''Results'', str_int (num2 self2) @ ''.csv'') \<longrightarrow>
        export_results2 self2 fs2 p = fs2 p) \<and>
   (\<forall>other2. (str_int (num2 self2) @ ''.csv'' = str_int (num2 other2) @ ''.csv'') =
        (num2 self2 = num2 other2))"
  by (auto simp: export_results_def write_csv_def export_results2_upd dest: str_int_inj)

theorem export_results_files_witness:
  "export_results ((OneSim counter_library 17)\<lparr>sum_attr := PyFloat (5 / 3)\<rparr>) ''Out'' Map.empty
     (''Out'', ''Seed 17.csv'') = Some [[PyInt 17, PyFloat (5 / 3)]] \<and>
   export_results ((OneSim counter_library 17)\<lparr>sum_attr := PyFloat (5 / 3)\<rparr>) ''Out'' Map.empty
     (''Out'', ''17.csv'') = None \<and>
   export_results2 ((OneSim2 counter_library 1)\<lparr>obs2 := [PyFloat (7 / 12)]\<rparr>) Map.empty
     (''Results'', ''Seed 1.csv'') = None"
proof -
  let ?m = "(OneSim counter_library 17)\<lparr>sum_attr := PyFloat (5 / 3)\<rparr>"
  let ?m2 = "(OneSim2 counter_library 1)\<lparr>obs2 := [PyFloat (7 / 12)]\<rparr>"
  note t = export_results_files [of ?m "''Out''" Map.empty ?m2 Map.empty]
  have s: "seed ?m = 17" and v: "sum_attr ?m = PyFloat (5 / 3)"
    by (simp_all add: OneSim_def)
  have s2: "num2 ?m2 = 1"
    by (simp add: OneSim2_def)
  from t have "export_results ?m ''Out'' Map.empty (''Out'', ''Seed '' @ str_int (seed ?m) @ ''.csv'') =
      Some [[PyInt (seed ?m), sum_attr ?m]]"
    by (rule conjunct1)
  then have a: "export_results ?m ''Out'' Map.empty (''Out'', ''Seed 17.csv'') =
      Some [[PyInt 17, PyFloat (5 / 3)]]"
    by (simp only: s v str_int_17) simp
  from t have "\<forall>p. p \<noteq> (''Out'', ''Seed '' @ str_int (seed ?m) @ ''.csv'') \<longrightarrow>
      export_results ?m ''Out'' Map.empty p = Map.empty p"
    by blast
  then have b: "export_results ?m ''Out'' Map.empty (''Out'', ''17.csv'') = None"
    by (simp add: s str_int_17)
  from t have "\<forall>p. p \<noteq> (''Results'', str_int (num2 ?m2) @ ''.csv'') \<longrightarrow>
      export_results2 ?m2 Map.empty p = Map.empty p"
    by blast
  then have c: "export_results2 ?m2 Map.empty (''Results'', ''Seed 1.csv'') = None"
    by (simp add: s2 str_int_1)
  from a b c show ?thesis by (intro conjI)
qed

text \<open>
  C9. The summary is defined for one outcome or more and is \<open>EmptyInputError\<close> on the
  empty sequence; \<^verbatim>\<open>MultiSim.simulate\<close> with no iteration summarises the empty sequence
  and ends in that error.
\<close>

theorem summarize_empty_input:
  "SummaryStat L name [] = Inl EmptyInputError \<and>
   SummaryStat L name (x # xs) =
     Inr \<lparr>stat_name = name, stat_mean = float_mean L (x # xs), stat_count = Suc (length xs)\<rparr> \<and>
   MultiSim_simulate L MultiSim n_steps 0 = Inl EmptyInputError"
  by (simp add: SummaryStat_def MultiSim_simulate_def MultiSim_loop_def MultiSim_def range_py_def)

text \<open>
  C10. For every model and step count, the worker \<^verbatim>\<open>simulate_this_model\<close> simulates the
  model and writes its row to the directory \<^verbatim>\<open>ResultsParallel\<close>, which is fixed in the
  code. A parallel run therefore leaves, for every model of the replication set, the
  file of its seed in that directory, holding the row of a model of that seed, and
  changes no file of another directory.
\<close>

theorem worker_always_exports:
  assumes "mset sched = mset [0..<length (models self)]"
  shows "simulate_this_model L (model, n) fs =
           (snd (simulate L model n),
            fs((''ResultsParallel'', seed_file (seed model)) \<mapsto>
               [[PyInt (seed model), sum_attr (snd (simulate L model n))]])) \<and>
         (\<forall>m \<in> set (models self).
            \<exists>m' \<in> set (models self). seed m' = seed m \<and>
              snd (ParallelMultiSim_simulate L sched self n fs) (''ResultsParallel'', seed_file (seed m)) =
                Some [[PyInt (seed m), sum_attr (snd (simulate L m' n))]]) \<and>
         (\<forall>d name. d \<noteq> ''ResultsParallel'' \<longrightarrow>
            snd (ParallelMultiSim_simulate L sched self n fs) (d, name) = fs (d, name))"
proof (intro conjI ballI allI impI)
  show "simulate_this_model L (model, n) fs =
           (snd (simulate L model n),
            fs((''ResultsParallel'', seed_file (seed model)) \<mapsto>
               [[PyInt (seed model), sum_attr (snd (simulate L model n))]]))"
    by (simp add: simulate_this_model_def case_prod_beta export_results_upd simulate_seed)
next
  fix m assume "m \<in> set (models self)"
  then obtain i where i: "i < length (models self)" "models self ! i = m"
    by (auto simp: in_set_conv_nth)
  from assms have set: "set sched = {0..<length (models self)}"
    by (metis set_mset_mset set_upt)
  let ?key = "\<lambda>m. (''ResultsParallel'', seed_file (seed m))"
  let ?val = "\<lambda>m. [[PyInt (seed m), sum_attr (snd (simulate L m n))]]"
  from i set have "\<exists>i \<in> set sched. i < length (models self) \<and> ?key (models self ! i) = ?key m"
    by auto
  from fold_models_written [of sched "models self" ?key "?key m" ?val fs, OF this]
  obtain j where j: "j < length (models self)" "?key (models self ! j) = ?key m"
    "snd (ParallelMultiSim_simulate L sched self n fs) (?key m) = Some (?val (models self ! j))"
    unfolding ParallelMultiSim_simulate_fold by blast
  from j(2) have s: "seed (models self ! j) = seed m"
    by (simp add: seed_file_inj)
  from j(1) have "models self ! j \<in> set (models self)" by simp
  with s j(3) show "\<exists>m' \<in> set (models self). seed m' = seed m \<and>
      snd (ParallelMultiSim_simulate L sched self n fs) (''ResultsParallel'', seed_file (seed m)) =
        Some [[PyInt (seed m), sum_attr (snd (simulate L m' n))]]"
    by auto
next
  fix d name assume "d \<noteq> ''ResultsParallel''"
  then have "\<forall>i \<in> set sched. i < length (models self) \<longrightarrow>
      (''ResultsParallel'', seed_file (seed (models self ! i))) \<noteq> (d, name)"
    by auto
  then show "snd (ParallelMultiSim_simulate L sched self n fs) (d, name) = fs (d, name)"
    unfolding ParallelMultiSim_simulate_fold by (rule fold_models_untouched)
qed

lemma seed_file_1: "seed_file 1 = ''Seed 1.csv''"
  by (simp add: seed_file_def) code_simp

theorem worker_always_exports_witness:
  "mset [1, 0] = mset [0..<length (models (ParallelMultiSim counter_library 2))] \<and>
   snd (simulate_this_model counter_library (OneSim counter_library 1, 1) Map.empty)
     (''ResultsParallel'', ''Seed 1.csv'') = Some [[PyInt 1, PyFloat (7 / 12)]] \<and>
   snd (ParallelMultiSim_simulate counter_library [1, 0] (ParallelMultiSim counter_library 2) 1 Map.empty)
     (''ResultsSequential'', ''Seed 1.csv'') = None"
proof -
  have h: "mset [1, 0] = mset [0..<length (models (ParallelMultiSim counter_library 2))]"
    by (simp add: models_ParallelMultiSim range_py_2 upt_conv_Cons)
  note t = worker_always_exports [OF h, where L = counter_library
      and model = "OneSim counter_library 1" and n = 1 and fs = Map.empty]
  have s: "seed (OneSim counter_library 1) = 1"
    by (simp add: OneSim_def)
  have v: "sum_attr (snd (simulate counter_library (OneSim counter_library 1) 1)) = PyFloat (7 / 12)"
    using outcome_counter_1_1 by (simp only: outcome_def)
  from t have "simulate_this_model counter_library (OneSim counter_library 1, 1) Map.empty =
      (snd (simulate counter_library (OneSim counter_library 1) 1),
       Map.empty((''ResultsParallel'', seed_file (seed (OneSim counter_library 1))) \<mapsto>
         [[PyInt (seed (OneSim counter_library 1)),
           sum_attr (snd (simulate counter_library (OneSim counter_library 1) 1))]]))"
    by (rule conjunct1)
  then have a: "snd (simulate_this_model counter_library (OneSim counter_library 1, 1) Map.empty)
      (''ResultsParallel'', ''Seed 1.csv'') = Some [[PyInt 1, PyFloat (7 / 12)]]"
    by (simp add: s v seed_file_1)
  from t have "\<forall>d name. d \<noteq> ''ResultsParallel'' \<longrightarrow>
      snd (ParallelMultiSim_simulate counter_library [1, 0] (ParallelMultiSim counter_library 2) 1 Map.empty)
        (d, name) = Map.empty (d, name)"
    by blast
  then have b: "snd (ParallelMultiSim_simulate counter_library [1, 0] (ParallelMultiSim counter_library 2) 1 Map.empty)
      (''ResultsSequential'', ''Seed 1.csv'') = None"
    by simp
  from h a b show ?thesis by (intro conjI)
qed

end
